theory Spec2Isabelle
  imports Main "HOL-Library.Word"
begin

section \<open>JavaScript strings and truthiness\<close>

text \<open>
  A JavaScript string is a sequence of UTF-16 code units. The regular expressions of the
  generation client carry no \<^verbatim>\<open>u\<close> flag, so they match code unit by code unit, and
  \<^verbatim>\<open>\s\<close> covers code units beyond ASCII; hence strings are lists of 16-bit words.
  \<open>js\<close> embeds an ASCII literal.
\<close>

type_synonym jsstring = "16 word list"

definition js :: "string \<Rightarrow> jsstring" where
  "js s = map of_char s"

text \<open>
  An optional string (\<^verbatim>\<open>string | undefined\<close>, or \<^verbatim>\<open>string | null\<close>) is truthy when it is
  present and not empty. \<open>js_or x y\<close> is \<^verbatim>\<open>x || y\<close> at that type.
\<close>

definition truthy :: "jsstring option \<Rightarrow> bool" where
  "truthy x = (case x of None \<Rightarrow> False | Some s \<Rightarrow> s \<noteq> [])"

definition js_or :: "jsstring option \<Rightarrow> jsstring \<Rightarrow> jsstring" where
  "js_or x y = (case x of None \<Rightarrow> y | Some s \<Rightarrow> if s = [] then y else s)"

definition starts_with :: "jsstring \<Rightarrow> jsstring \<Rightarrow> bool" where
  "starts_with t p = (take (length p) t = p)"

definition ends_with :: "jsstring \<Rightarrow> jsstring \<Rightarrow> bool" where
  "ends_with t p = (length p \<le> length t \<and> drop (length t - length p) t = p)"

text \<open>\<^verbatim>\<open>String.prototype.includes\<close>: the pattern occurs somewhere in the text.\<close>

fun includes_str :: "jsstring \<Rightarrow> jsstring \<Rightarrow> bool" where
  "includes_str [] p = (p = [])"
| "includes_str (c # cs) p = (starts_with (c # cs) p \<or> includes_str cs p)"

text \<open>
  A thrown JavaScript error, as far as \<^verbatim>\<open>handleError\<close> looks at it: its \<^verbatim>\<open>message\<close> and the
  result of \<^verbatim>\<open>toString()\<close>.
\<close>

datatype js_error = JsError (message: jsstring) (to_string: jsstring)

section \<open>JSON values\<close>

text \<open>
  \<^verbatim>\<open>JSON.parse\<close> returns \<^verbatim>\<open>any\<close>, and the members of an imported file are copied into a
  creation unchecked, so a member of a document or of a creation is a JavaScript value of
  the kinds JSON has: \<^verbatim>\<open>undefined\<close> (the member is absent), \<^verbatim>\<open>null\<close>, a boolean, a number, a
  string, an array, or an object with its members. A number is kept by the text that
  \<^verbatim>\<open>ToString\<close> gives it, which tells numbers apart (\<open>0\<close> and \<open>-0\<close>, both \<open>0\<close>, are equal
  for \<^verbatim>\<open>===\<close> as well); JSON has no NaN.
\<close>

datatype jsval =
    JUndefined
  | JNull
  | JBool bool
  | JNum jsstring
  | JStr jsstring
  | JArr "jsval list"
  | JObj "(jsstring \<times> jsval) list"

text \<open>\<^verbatim>\<open>ToBoolean\<close>: what \<^verbatim>\<open>&&\<close>, \<^verbatim>\<open>||\<close> and \<^verbatim>\<open>if\<close> test. Arrays and objects are truthy, empty or not.\<close>

fun is_truthy :: "jsval \<Rightarrow> bool" where
  "is_truthy JUndefined = False"
| "is_truthy JNull = False"
| "is_truthy (JBool b) = b"
| "is_truthy (JNum r) = (r \<noteq> js ''0'')"
| "is_truthy (JStr s) = (s \<noteq> [])"
| "is_truthy (JArr xs) = True"
| "is_truthy (JObj kvs) = True"


fun fresh_strict_eq :: "jsval \<Rightarrow> jsval \<Rightarrow> bool" where
  "fresh_strict_eq x (JArr ys) = False"
| "fresh_strict_eq x (JObj kvs) = False"
| "fresh_strict_eq x y = (x = y)"

text \<open>
  \<^verbatim>\<open>ToString\<close>, as a template literal applies it. An array is joined with commas, \<^verbatim>\<open>null\<close>
  elements giving the empty text. An object parsed from JSON gives \<^verbatim>\<open>[object Object]\<close>,
  unless it has a member named \<^verbatim>\<open>toString\<close>: that member is no function, and neither it nor
  \<^verbatim>\<open>valueOf\<close> yields a primitive, so the conversion throws a TypeError.
\<close>

definition CANNOT_CONVERT :: js_error where
  "CANNOT_CONVERT = JsError (js ''Cannot convert object to primitive value'')
     (js ''TypeError: Cannot convert object to primitive value'')"

fun js_to_string :: "jsval \<Rightarrow> js_error + jsstring"
  and js_join :: "jsval list \<Rightarrow> js_error + jsstring" where
  "js_to_string JUndefined = Inr (js ''undefined'')"
| "js_to_string JNull = Inr (js ''null'')"
| "js_to_string (JBool b) = Inr (if b then js ''true'' else js ''false'')"
| "js_to_string (JNum r) = Inr r"
| "js_to_string (JStr s) = Inr s"
| "js_to_string (JArr xs) = js_join xs"
| "js_to_string (JObj kvs) =
     (if list_ex (\<lambda>kv. fst kv = js ''toString'') kvs then Inl CANNOT_CONVERT
      else Inr (js ''[object Object]''))"
| "js_join [] = Inr []"
| "js_join (x # xs) =
     (case (if x = JNull \<or> x = JUndefined then Inr [] else js_to_string x) of
        Inl e \<Rightarrow> Inl e
      | Inr s \<Rightarrow>
          if xs = [] then Inr s
          else (case js_join xs of Inl e \<Rightarrow> Inl e | Inr t \<Rightarrow> Inr (s @ js '','' @ t)))"

section \<open>Generation client (services/gemini)\<close>

subsection \<open>Cleanup of markdown fences\<close>

text \<open>
  ECMAScript \<^verbatim>\<open>\s\<close>: the WhiteSpace and LineTerminator code points (TAB, LF, VT, FF, CR,
  SPACE, NBSP, U+1680, U+2000 to U+200A, U+2028, U+2029, U+202F, U+205F, U+3000, U+FEFF).
\<close>

definition is_space :: "16 word \<Rightarrow> bool" where
  "is_space c =
     (c = 0x09 \<or> c = 0x0A \<or> c = 0x0B \<or> c = 0x0C \<or> c = 0x0D \<or> c = 0x20 \<or> c = 0xA0
      \<or> c = 0x1680 \<or> (0x2000 \<le> c \<and> c \<le> 0x200A) \<or> c = 0x2028 \<or> c = 0x2029
      \<or> c = 0x202F \<or> c = 0x205F \<or> c = 0x3000 \<or> c = 0xFEFF)"

definition fence :: jsstring where
  "fence = js ''```''"

definition fence_html :: jsstring where
  "fence_html = js ''```html''"

text \<open>
  \<^verbatim>\<open>text.replace(/^```html\s*/, '')\<close>. Without the \<^verbatim>\<open>m\<close> flag \<^verbatim>\<open>^\<close> is the start of
  the input only; without \<^verbatim>\<open>g\<close> one match is replaced; \<^verbatim>\<open>\s*\<close> is greedy and nothing
  follows it, so it takes the whole run of white space after the tag.
\<close>

definition replace_fence_html :: "jsstring \<Rightarrow> jsstring" where
  "replace_fence_html t =
     (if starts_with t fence_html then dropWhile is_space (drop (length fence_html) t) else t)"

text \<open>\<^verbatim>\<open>.replace(/^```\s*/, '')\<close>\<close>

definition replace_fence_open :: "jsstring \<Rightarrow> jsstring" where
  "replace_fence_open t =
     (if starts_with t fence then dropWhile is_space (drop (length fence) t) else t)"

text \<open>
  \<^verbatim>\<open>.replace(/```$/, '')\<close>. Without the \<^verbatim>\<open>m\<close> flag \<^verbatim>\<open>$\<close> is the end of the input
  only, so the pattern matches exactly when the text ends with the three backticks, and
  the match is those last three code units.
\<close>

definition replace_fence_close :: "jsstring \<Rightarrow> jsstring" where
  "replace_fence_close t =
     (if ends_with t fence then take (length t - length fence) t else t)"

text \<open>The chain of the three replacements, as both \<^verbatim>\<open>bringToLife\<close> and \<^verbatim>\<open>updateCode\<close> apply it.\<close>

definition strip_fences :: "jsstring \<Rightarrow> jsstring" where
  "strip_fences t = replace_fence_close (replace_fence_open (replace_fence_html t))"

subsection \<open>Requests and responses\<close>

definition API_KEY_MISSING :: js_error where
  "API_KEY_MISSING = JsError (js ''API_KEY_MISSING'') (js ''Error: API_KEY_MISSING'')"

text \<open>
  A part of a request: a text, inline data with its media type, or (\<open>Value\<close>) a text part
  whose value is not a string, which the types exclude and the runtime does not.
\<close>

datatype part = Text jsstring | InlineData jsstring jsstring | Value jsval

text \<open>The two system instructions are fixed texts; the request names which one it carries.\<close>

datatype instruction = SYSTEM_INSTRUCTION | UPDATE_SYSTEM_INSTRUCTION

record request =
  parts :: "part list"
  systemInstruction :: instruction

text \<open>
  The remote service: \<^verbatim>\<open>ai.models.generateContent\<close> either rejects (\<open>Inl\<close>) or resolves
  to a response whose \<^verbatim>\<open>text\<close> is a string or undefined (\<open>Inr\<close>).
\<close>

type_synonym service = "request \<Rightarrow> js_error + jsstring option"

text \<open>
  \<^verbatim>\<open>getGenAIClient\<close>: the stored key, \<^verbatim>\<open>localStorage.getItem('user_gemini_api_key')\<close>, is a
  string or null; a null or empty key throws.
\<close>

definition getGenAIClient :: "jsstring option \<Rightarrow> js_error + jsstring" where
  "getGenAIClient apiKey = (if \<not> truthy apiKey then Inl API_KEY_MISSING else Inr (js_or apiKey []))"

definition ANALYZE_DIRECTIVE :: jsstring where
  "ANALYZE_DIRECTIVE = js (''Analyze this image/document. Detect what functionality is implied. ''
     @ ''If it is a real-world object (like a desk), gamify it (e.g., a cleanup game). ''
     @ ''Build a fully interactive web app. IMPORTANT: Do NOT use external image URLs. ''
     @ ''Recreate the visuals using CSS, SVGs, or Emojis. ''
     @ ''Ensure all user-facing text is in Simplified Chinese.'')"

text \<open>The default demo prompt, fifteen code units of Chinese text ending in U+3002.\<close>

definition DEFAULT_PROMPT :: jsstring where
  "DEFAULT_PROMPT = [0x521B, 0x5EFA, 0x4E00, 0x4E2A, 0x5C55, 0x793A, 0x4F60, 0x80FD, 0x529B,
     0x7684, 0x6F14, 0x793A, 0x5E94, 0x7528, 0x3002]"

text \<open>The placeholder comment returned for a response without text.\<close>

definition FAILURE_PLACEHOLDER :: jsstring where
  "FAILURE_PLACEHOLDER =
     js ''<!-- '' @ [0x751F, 0x6210, 0x5185, 0x5BB9, 0x5931, 0x8D25] @ js '' -->''"

definition finalPrompt :: "jsstring \<Rightarrow> jsstring option \<Rightarrow> jsstring" where
  "finalPrompt prompt fileBase64 =
     (if truthy fileBase64 then ANALYZE_DIRECTIVE else js_or (Some prompt) DEFAULT_PROMPT)"

definition bringToLife_parts :: "jsstring \<Rightarrow> jsstring option \<Rightarrow> jsstring option \<Rightarrow> part list" where
  "bringToLife_parts prompt fileBase64 mimeType =
     Text (finalPrompt prompt fileBase64) #
     (if truthy fileBase64 \<and> truthy mimeType
      then [InlineData (js_or fileBase64 []) (js_or mimeType [])] else [])"

definition bringToLife ::
  "jsstring option \<Rightarrow> service \<Rightarrow> jsstring \<Rightarrow> jsstring option \<Rightarrow> jsstring option
     \<Rightarrow> js_error + jsstring" where
  "bringToLife apiKey generateContent prompt fileBase64 mimeType =
     (case getGenAIClient apiKey of
        Inl e \<Rightarrow> Inl e
      | Inr _ \<Rightarrow>
          (case generateContent \<lparr>parts = bringToLife_parts prompt fileBase64 mimeType,
                                 systemInstruction = SYSTEM_INSTRUCTION\<rparr> of
             Inl e \<Rightarrow> Inl e
           | Inr text \<Rightarrow> Inr (strip_fences (js_or text FAILURE_PLACEHOLDER))))"

definition updateCode_parts :: "jsstring \<Rightarrow> jsstring \<Rightarrow> part list" where
  "updateCode_parts currentHtml userPrompt =
     [Text (js ''Here is the current HTML code:''),
      Text currentHtml,
      Text (js ''User Request: '' @ userPrompt),
      Text (js ''Please provide the updated full HTML code.'')]"

definition updateCode ::
  "jsstring option \<Rightarrow> service \<Rightarrow> jsstring \<Rightarrow> jsstring \<Rightarrow> js_error + jsstring" where
  "updateCode apiKey generateContent currentHtml userPrompt =
     (case getGenAIClient apiKey of
        Inl e \<Rightarrow> Inl e
      | Inr _ \<Rightarrow>
          (case generateContent \<lparr>parts = updateCode_parts currentHtml userPrompt,
                                 systemInstruction = UPDATE_SYSTEM_INSTRUCTION\<rparr> of
             Inl e \<Rightarrow> Inl e
           | Inr text \<Rightarrow> Inr (strip_fences (js_or text currentHtml))))"

section \<open>Creations and the application state (App)\<close>

text \<open>
  A \<^verbatim>\<open>Date\<close> holds a time value in milliseconds since the epoch, or is an invalid date.
\<close>

datatype date = Date int | InvalidDate

text \<open>
  A creation as the running application holds it. The \<^verbatim>\<open>Creation\<close> interface declares
  \<^verbatim>\<open>id\<close>, \<^verbatim>\<open>name\<close> and \<^verbatim>\<open>html\<close> as strings and \<^verbatim>\<open>originalImage\<close> as an optional string; the
  handlers that make a creation themselves write strings, an import copies whatever the
  file has. The field \<^verbatim>\<open>id\<close> is written \<open>id'\<close>.
\<close>

record creation =
  id' :: jsval
  name :: jsval
  html :: jsval
  originalImage :: jsval
  timestamp :: date

definition MAX_HISTORY_ITEMS :: nat where
  "MAX_HISTORY_ITEMS = 30"

datatype api_status = Idle | Checking | Valid | Invalid

text \<open>
  The four messages the application shows through \<^verbatim>\<open>alert\<close>:
  \<open>ApiKeyRejected\<close> (the key is invalid or the request was refused),
  \<open>GenerationFailed\<close> (something went wrong while generating, try again),
  \<open>InvalidFormat\<close> (U+65E0 U+6548 U+7684 U+6587 U+4EF6 U+683C U+5F0F U+3002: invalid file
  format) and \<open>ImportFailed\<close> (U+5BFC U+5165 U+5931 U+8D25 U+3002: the import failed).
  The last two are the messages with which an import is rejected.
\<close>

datatype alert = ApiKeyRejected | GenerationFailed | InvalidFormat | ImportFailed

text \<open>
  The state of the \<^verbatim>\<open>App\<close> component together with what it keeps outside itself:
  \<open>stored_history\<close> is the \<^verbatim>\<open>localStorage\<close> entry \<^verbatim>\<open>gemini_app_history\<close> (\<open>None\<close>: no
  entry; \<open>Some []\<close>: an entry holding the empty list), \<open>alerts\<close> the messages shown so far.
\<close>

record app =
  activeCreation :: "creation option"
  isGenerating :: bool
  history :: "creation list"
  isApiKeyModalOpen :: bool
  apiStatus :: api_status
  stored_history :: "creation list option"
  alerts :: "alert list"

subsection \<open>Persistence\<close>

text \<open>
  The effect on \<^verbatim>\<open>[history]\<close>: a non-empty history is written to the entry;
  \<^verbatim>\<open>localStorage.setItem\<close> may throw (quota), which is caught and logged, and the entry
  then stays as it was. \<open>setItem_ok\<close> tells whether the browser accepts the write. Nothing
  is done for an empty history.
\<close>

definition save_history :: "(creation list \<Rightarrow> bool) \<Rightarrow> app \<Rightarrow> app" where
  "save_history setItem_ok st =
     (if length (history st) > 0
      then (if setItem_ok (history st) then st\<lparr>stored_history := Some (history st)\<rparr> else st)
      else st)"

text \<open>
  \<^verbatim>\<open>setHistory(prev => ...)\<close>. When the updater returns the very array it was given
  (\<open>None\<close>) the state is unchanged and the effect does not run; when it returns a new array
  (\<open>Some h\<close>) that array becomes the history and the effect runs after the render.
\<close>

definition setHistory :: "(creation list \<Rightarrow> bool) \<Rightarrow> creation list option \<Rightarrow> app \<Rightarrow> app" where
  "setHistory setItem_ok u st =
     (case u of None \<Rightarrow> st | Some h \<Rightarrow> save_history setItem_ok (st\<lparr>history := h\<rparr>))"

text \<open>\<^verbatim>\<open>[x, ...prev].slice(0, MAX_HISTORY_ITEMS)\<close>, the expression all three adding handlers share.\<close>

definition add :: "creation \<Rightarrow> creation list \<Rightarrow> creation list" where
  "add x prev = take MAX_HISTORY_ITEMS (x # prev)"

subsection \<open>Handlers\<close>

definition handleError :: "js_error \<Rightarrow> app \<Rightarrow> app" where
  "handleError error st =
     (if message error = js ''API_KEY_MISSING'' then st\<lparr>isApiKeyModalOpen := True\<rparr>
      else if includes_str (to_string error) (js ''403'')
              \<or> includes_str (to_string error) (js ''400'')
      then st\<lparr>alerts := alerts st @ [ApiKeyRejected], apiStatus := Invalid,
              isApiKeyModalOpen := True\<rparr>
      else st\<lparr>alerts := alerts st @ [GenerationFailed]\<rparr>)"

text \<open>
  An uploaded \<^verbatim>\<open>File\<close>: its name, \<^verbatim>\<open>file.type.toLowerCase()\<close>, and what \<^verbatim>\<open>fileToBase64\<close>
  makes of it (a rejection, or \<^verbatim>\<open>reader.result.split(',')[1]\<close>, which is a string or
  undefined).
\<close>

record upload =
  file_name :: jsstring
  file_type :: jsstring
  file_base64 :: "js_error + jsstring option"

text \<open>The name of a creation made without a file (U+65B0 U+521B U+4F5C).\<close>

definition NEW_CREATION_NAME :: jsstring where
  "NEW_CREATION_NAME = [0x65B0, 0x521B, 0x4F5C]"

text \<open>
  \<^verbatim>\<open>handleGenerate\<close> runs in two steps around the awaited request. The first step, before
  the request is sent:
\<close>

definition handleGenerate_start :: "app \<Rightarrow> app" where
  "handleGenerate_start st = st\<lparr>isGenerating := True, activeCreation := None\<rparr>"

text \<open>The values of \<^verbatim>\<open>imageBase64\<close> and \<^verbatim>\<open>mimeType\<close> once the file has been read.\<close>

definition imageBase64 :: "upload option \<Rightarrow> jsstring option" where
  "imageBase64 f =
     (case f of None \<Rightarrow> None
      | Some fl \<Rightarrow> (case file_base64 fl of Inl e \<Rightarrow> None | Inr b \<Rightarrow> b))"

definition mimeType :: "upload option \<Rightarrow> jsstring option" where
  "mimeType f = map_option file_type f"

text \<open>What the \<^verbatim>\<open>try\<close> block gets: the html, or the error thrown on the way.\<close>

definition generate_outcome ::
  "jsstring option \<Rightarrow> service \<Rightarrow> jsstring \<Rightarrow> upload option \<Rightarrow> js_error + jsstring" where
  "generate_outcome apiKey generateContent promptText f =
     (case f of
        None \<Rightarrow> bringToLife apiKey generateContent promptText None None
      | Some fl \<Rightarrow>
          (case file_base64 fl of
             Inl e \<Rightarrow> Inl e
           | Inr b \<Rightarrow> bringToLife apiKey generateContent promptText b (Some (file_type fl))))"

text \<open>
  The second step, when the request has settled: \<open>uuid\<close> is the value of
  \<^verbatim>\<open>crypto.randomUUID()\<close>, \<open>now\<close> the clock read by \<^verbatim>\<open>new Date()\<close>.
\<close>

definition newCreation :: "jsstring \<Rightarrow> int \<Rightarrow> upload option \<Rightarrow> jsstring \<Rightarrow> creation" where
  "newCreation uuid now f h =
     \<lparr>id' = JStr uuid,
      name = JStr (case f of Some fl \<Rightarrow> file_name fl | None \<Rightarrow> NEW_CREATION_NAME),
      html = JStr h,
      originalImage =
        (if truthy (imageBase64 f) \<and> truthy (mimeType f)
         then JStr (js ''data:'' @ js_or (mimeType f) [] @ js '';base64,''
                    @ js_or (imageBase64 f) [])
         else JUndefined),
      timestamp = Date now\<rparr>"

definition handleGenerate_finish ::
  "(creation list \<Rightarrow> bool) \<Rightarrow> jsstring \<Rightarrow> int \<Rightarrow> upload option \<Rightarrow> js_error + jsstring
     \<Rightarrow> app \<Rightarrow> app" where
  "handleGenerate_finish setItem_ok uuid now f outcome st =
     (case outcome of
        Inl e \<Rightarrow> handleError e st
      | Inr h \<Rightarrow>
          if h \<noteq> [] then
            setHistory setItem_ok (Some (add (newCreation uuid now f h) (history st)))
              (st\<lparr>activeCreation := Some (newCreation uuid now f h)\<rparr>)
          else st)
     \<lparr>isGenerating := False\<rparr>"

definition handleGenerate ::
  "(creation list \<Rightarrow> bool) \<Rightarrow> jsstring \<Rightarrow> int \<Rightarrow> jsstring option \<Rightarrow> service
     \<Rightarrow> jsstring \<Rightarrow> upload option \<Rightarrow> app \<Rightarrow> app" where
  "handleGenerate setItem_ok uuid now apiKey generateContent promptText f st =
     handleGenerate_finish setItem_ok uuid now f
       (generate_outcome apiKey generateContent promptText f) (handleGenerate_start st)"

text \<open>
  \<^verbatim>\<open>handleUpdate\<close>, likewise in two steps. Without an active creation it returns at once.
  The second step works on the creation the handler captured when it was called
  (\<open>captured\<close>) and on the history as it is when the request settles.
\<close>

definition handleUpdate_start :: "app \<Rightarrow> app" where
  "handleUpdate_start st =
     (case activeCreation st of None \<Rightarrow> st | Some c \<Rightarrow> st\<lparr>isGenerating := True\<rparr>)"



definition VERSION_SUFFIX :: jsstring where
  "VERSION_SUFFIX = js '' (v2)''"

text \<open>
  The object literal of the new version: the captured creation with a new id, the name
  made by the template literal (which converts the old name to a string, and throws when
  that conversion does), the new html and the current time.
\<close>

definition updatedCreation ::
  "jsstring \<Rightarrow> int \<Rightarrow> creation \<Rightarrow> jsstring \<Rightarrow> js_error + creation" where
  "updatedCreation uuid now captured newHtml =
     (case js_to_string (name captured) of
        Inl e \<Rightarrow> Inl e
      | Inr n \<Rightarrow>
          Inr (captured\<lparr>id' := JStr uuid, name := JStr (n @ VERSION_SUFFIX),
                        html := JStr newHtml, timestamp := Date now\<rparr>))"

definition handleUpdate_finish ::
  "(creation list \<Rightarrow> bool) \<Rightarrow> jsstring \<Rightarrow> int \<Rightarrow> creation \<Rightarrow> js_error + jsstring
     \<Rightarrow> app \<Rightarrow> app" where
  "handleUpdate_finish setItem_ok uuid now captured outcome st =
     (case outcome of
        Inl e \<Rightarrow> handleError e st
      | Inr newHtml \<Rightarrow>
          if newHtml \<noteq> [] then
            (case updatedCreation uuid now captured newHtml of
               Inl e \<Rightarrow> handleError e st
             | Inr u \<Rightarrow>
                 (setHistory setItem_ok (Some (add u (history st))) st)
                   \<lparr>activeCreation := Some u\<rparr>)
          else st)
     \<lparr>isGenerating := False\<rparr>"


definition handleReset :: "app \<Rightarrow> app" where
  "handleReset st = st\<lparr>activeCreation := None, isGenerating := False\<rparr>"

definition handleSelectCreation :: "creation \<Rightarrow> app \<Rightarrow> app" where
  "handleSelectCreation c st = st\<lparr>activeCreation := Some c\<rparr>"

text \<open>
  \<^verbatim>\<open>handleDeleteCreation(id: string)\<close>: \<^verbatim>\<open>filter\<close> always makes a new array, so the effect
  runs; the entry is removed inside the updater when nothing is left. An id that is not a
  string differs from the string given.
\<close>

definition handleDeleteCreation :: "(creation list \<Rightarrow> bool) \<Rightarrow> jsstring \<Rightarrow> app \<Rightarrow> app" where
  "handleDeleteCreation setItem_ok i st =
     (let st1 = (if map_option id' (activeCreation st) = Some (JStr i)
                 then st\<lparr>activeCreation := None\<rparr> else st);
          newHistory = filter (\<lambda>item. id' item \<noteq> JStr i) (history st1);
          st2 = (if length newHistory = 0 then st1\<lparr>stored_history := None\<rparr> else st1)
      in setHistory setItem_ok (Some newHistory) st2)"

subsection \<open>Export and import\<close>

text \<open>
  A creation file is JSON text. The model keeps a parsed object by the five members the
  application reads. Each of \<^verbatim>\<open>id\<close>, \<^verbatim>\<open>name\<close>, \<^verbatim>\<open>html\<close> and \<^verbatim>\<open>originalImage\<close> is any JSON value,
  \<open>JUndefined\<close> when the member is absent. For \<^verbatim>\<open>timestamp\<close> the member is absent or falsy
  (\<open>None\<close>), or a value from which the \<^verbatim>\<open>Date\<close> constructor makes the given date
  (\<open>Some d\<close>).
\<close>

record document =
  d_id :: jsval
  d_name :: jsval
  d_html :: jsval
  d_originalImage :: jsval
  d_timestamp :: "date option"

text \<open>
  What \<^verbatim>\<open>JSON.parse\<close> yields for the text of the file: it throws (\<open>SyntaxError\<close>), or gives
  \<^verbatim>\<open>null\<close>, or a value without members of its own (a number, a string, a boolean, an
  array), or an object.
\<close>

datatype parsed = SyntaxError | Null | NonObject | Object document



text \<open>
  \<^verbatim>\<open>handleImportFile\<close>, the \<^verbatim>\<open>onload\<close> callback. Reading \<^verbatim>\<open>parsed.html\<close> of \<^verbatim>\<open>null\<close> throws a
  TypeError, which the \<^verbatim>\<open>catch\<close> block reports like a syntax error. The test
  \<^verbatim>\<open>parsed.html && parsed.name\<close> is one of truthiness, and the accepted members are copied
  as they are; the id compared with those of the history is the one just parsed or drawn.
\<close>

definition importedCreation :: "jsstring \<Rightarrow> int \<Rightarrow> document \<Rightarrow> creation" where
  "importedCreation uuid now d =
     \<lparr>id' = (if is_truthy (d_id d) then d_id d else JStr uuid),
      name = d_name d,
      html = d_html d,
      originalImage = d_originalImage d,
      timestamp = (case d_timestamp d of Some t \<Rightarrow> t | None \<Rightarrow> Date now)\<rparr>"

definition handleImportFile ::
  "(creation list \<Rightarrow> bool) \<Rightarrow> jsstring \<Rightarrow> int \<Rightarrow> parsed \<Rightarrow> app \<Rightarrow> app" where
  "handleImportFile setItem_ok uuid now p st =
     (case p of
        SyntaxError \<Rightarrow> st\<lparr>alerts := alerts st @ [ImportFailed]\<rparr>
      | Null \<Rightarrow> st\<lparr>alerts := alerts st @ [ImportFailed]\<rparr>
      | NonObject \<Rightarrow> st\<lparr>alerts := alerts st @ [InvalidFormat]\<rparr>
      | Object d \<Rightarrow>
          if is_truthy (d_html d) \<and> is_truthy (d_name d) then
            (setHistory setItem_ok
               (if list_ex (\<lambda>c. fresh_strict_eq (id' c) (id' (importedCreation uuid now d)))
                     (history st)
                then None
                else Some (add (importedCreation uuid now d) (history st))) st)
              \<lparr>activeCreation := Some (importedCreation uuid now d)\<rparr>
          else st\<lparr>alerts := alerts st @ [InvalidFormat]\<rparr>)"

subsection \<open>Sequences of user actions\<close>

text \<open>
  The actions that reach the history: a generation or a revision whose request has settled
  (with the values its second step takes), an import of a parsed file, a deletion.
\<close>

datatype event =
    Generate jsstring int "upload option" "js_error + jsstring"
  | Update jsstring int creation "js_error + jsstring"
  | Import jsstring int parsed
  | Delete jsstring

fun step :: "(creation list \<Rightarrow> bool) \<Rightarrow> event \<Rightarrow> app \<Rightarrow> app" where
  "step ok (Generate uuid now f outcome) st = handleGenerate_finish ok uuid now f outcome st"
| "step ok (Update uuid now captured outcome) st =
     handleUpdate_finish ok uuid now captured outcome st"
| "step ok (Import uuid now p) st = handleImportFile ok uuid now p st"
| "step ok (Delete i) st = handleDeleteCreation ok i st"

fun run :: "(creation list \<Rightarrow> bool) \<Rightarrow> event list \<Rightarrow> app \<Rightarrow> app" where
  "run ok [] st = st"
| "run ok (e # es) st = run ok es (step ok e st)"

text \<open>
  The record an action brings, if it brings one: a generation that returned html, a
  revision that returned html and could name the new version, an import of a document
  with \<^verbatim>\<open>html\<close> and \<^verbatim>\<open>name\<close>.
\<close>

fun brought :: "event \<Rightarrow> creation option" where
  "brought (Generate uuid now f (Inr h)) =
     (if h \<noteq> [] then Some (newCreation uuid now f h) else None)"
| "brought (Update uuid now captured (Inr h)) =
     (if h \<noteq> [] then
        (case updatedCreation uuid now captured h of Inl e \<Rightarrow> None | Inr u \<Rightarrow> Some u)
      else None)"
| "brought (Import uuid now (Object d)) =
     (if is_truthy (d_html d) \<and> is_truthy (d_name d)
      then Some (importedCreation uuid now d) else None)"
| "brought e = None"

text \<open>
  An action is an add operation on a history when it brings a record and, for an import,
  no record of the history has that id.
\<close>

fun is_add :: "event \<Rightarrow> creation list \<Rightarrow> bool" where
  "is_add (Import uuid now p) h =
     (case brought (Import uuid now p) of
        None \<Rightarrow> False
      | Some r \<Rightarrow> \<not> list_ex (\<lambda>c. fresh_strict_eq (id' c) (id' r)) h)"
| "is_add e h = (brought e \<noteq> None)"

fun all_adds :: "(creation list \<Rightarrow> bool) \<Rightarrow> event list \<Rightarrow> app \<Rightarrow> bool" where
  "all_adds ok [] st = True"
| "all_adds ok (e # es) st = (is_add e (history st) \<and> all_adds ok es (step ok e st))"

text \<open>The persisted form reflects the collection: no entry for the empty list, else the list.\<close>

definition persisted :: "app \<Rightarrow> bool" where
  "persisted st = (stored_history st = (if history st = [] then None else Some (history st)))"

subsection \<open>Concrete inputs\<close>

text \<open>A service that answers every request successfully, without text.\<close>

definition no_text_service :: service where
  "no_text_service r = Inr None"

definition some_key :: "jsstring option" where
  "some_key = Some (js ''AIza-key'')"


text \<open>A service that answers with the text of the first part of the request it was sent.\<close>

definition echo_service :: service where
  "echo_service r = (case parts r of Text t # rest \<Rightarrow> Inr (Some t) | _ \<Rightarrow> Inr None)"

text \<open>The state of the component when it is mounted in a browser without a stored history.\<close>

definition initial_app :: app where
  "initial_app = \<lparr>activeCreation = None, isGenerating = False, history = [],
     isApiKeyModalOpen = False, apiStatus = Idle, stored_history = None, alerts = []\<rparr>"

text \<open>A browser that accepts every write, and one whose storage refuses every write.\<close>

definition storage_ok :: "creation list \<Rightarrow> bool" where
  "storage_ok h = True"

definition storage_full :: "creation list \<Rightarrow> bool" where
  "storage_full h = False"

definition creation_X :: creation where
  "creation_X = \<lparr>id' = JStr (js ''id-x''), name = JStr (js ''X''), html = JStr (js ''<p>x</p>''),
     originalImage = JUndefined, timestamp = Date 1000\<rparr>"

definition creation_Y :: creation where
  "creation_Y = \<lparr>id' = JStr (js ''id-y''), name = JStr (js ''Y''), html = JStr (js ''<p>y</p>''),
     originalImage = JStr (js ''data:image/png;base64,QUJD''), timestamp = InvalidDate\<rparr>"






definition presenting_X :: app where
  "presenting_X = initial_app\<lparr>history := [creation_X], activeCreation := Some creation_X\<rparr>"

definition two_app :: app where
  "two_app = initial_app\<lparr>history := [creation_X, creation_Y],
     stored_history := Some [creation_X, creation_Y]\<rparr>"

definition two_adds :: "event list" where
  "two_adds = [Generate (js ''id-1'') 1 None (Inr (js ''<p>1</p>'')),
               Update (js ''id-2'') 2 creation_X (Inr (js ''<p>2</p>''))]"

text \<open>The file \<^verbatim>\<open>{"id": "id-z", "name": "Z"}\<close>, without html.\<close>

definition no_html :: document where
  "no_html = \<lparr>d_id = JStr (js ''id-z''), d_name = JStr (js ''Z''), d_html = JUndefined,
     d_originalImage = JUndefined, d_timestamp = None\<rparr>"

text \<open>The file \<^verbatim>\<open>{"html": [], "name": "N"}\<close>, whose html is the empty array.\<close>

definition empty_array_html :: document where
  "empty_array_html = \<lparr>d_id = JUndefined, d_name = JStr (js ''N''), d_html = JArr [],
     d_originalImage = JUndefined, d_timestamp = None\<rparr>"

text \<open>The file \<^verbatim>\<open>{"id": "id-w", "name": "W", "html": "<p>w</p>"}\<close>.\<close>

definition document_W :: document where
  "document_W = \<lparr>d_id = JStr (js ''id-w''), d_name = JStr (js ''W''),
     d_html = JStr (js ''<p>w</p>''), d_originalImage = JUndefined, d_timestamp = None\<rparr>"



section \<open>Properties of the generation client\<close>

lemma starts_with_iff: "starts_with t p \<longleftrightarrow> (\<exists>r. t = p @ r)"
proof
  assume "starts_with t p"
  then have "t = p @ drop (length p) t"
    unfolding starts_with_def by (metis append_take_drop_id)
  then show "\<exists>r. t = p @ r" ..
next
  assume "\<exists>r. t = p @ r"
  then show "starts_with t p" by (auto simp: starts_with_def)
qed

lemma ends_with_iff: "ends_with t p \<longleftrightarrow> (\<exists>r. t = r @ p)"
proof
  assume "ends_with t p"
  then have "t = take (length t - length p) t @ p"
    unfolding ends_with_def by (metis append_take_drop_id)
  then show "\<exists>r. t = r @ p" ..
next
  assume "\<exists>r. t = r @ p"
  then show "ends_with t p" by (auto simp: ends_with_def)
qed

lemma fence_simps:
  "fence = [96, 96, 96]" "fence_html = [96, 96, 96, 104, 116, 109, 108]"
  by (simp_all add: fence_def fence_html_def js_def)

lemma fence_html_eq: "fence_html = fence @ js ''html''"
  by (simp add: fence_def fence_html_def js_def)

lemma not_starts_with_fence_html: "\<not> starts_with t fence \<Longrightarrow> \<not> starts_with t fence_html"
  by (auto simp: starts_with_iff fence_html_eq)

text \<open>
  A text that neither begins nor ends with the three backticks passes through the cleanup
  as it is.
\<close>

lemma strip_fences_clean:
  "\<not> starts_with t fence \<Longrightarrow> \<not> ends_with t fence \<Longrightarrow> strip_fences t = t"
  by (simp add: strip_fences_def replace_fence_html_def replace_fence_open_def
      replace_fence_close_def not_starts_with_fence_html)

lemma strip_fences_placeholder: "strip_fences FAILURE_PLACEHOLDER = FAILURE_PLACEHOLDER"
  by (simp add: strip_fences_def replace_fence_html_def replace_fence_open_def
      replace_fence_close_def starts_with_def ends_with_def fence_simps js_def
      FAILURE_PLACEHOLDER_def)

lemma placeholder_not_empty: "FAILURE_PLACEHOLDER \<noteq> []"
  by (simp add: FAILURE_PLACEHOLDER_def js_def)

lemma truthy_key: "truthy apiKey \<Longrightarrow> getGenAIClient apiKey = Inr (js_or apiKey [])"
  by (simp add: getGenAIClient_def)

lemma not_truthy_js_or: "\<not> truthy x \<Longrightarrow> js_or x y = y"
  by (simp add: truthy_def js_or_def split: option.splits)

lemma not_space_backtick: "\<not> is_space 96"
  by (simp add: is_space_def)

lemma dropWhile_space_body:
  assumes "list_all is_space ws" and "body = [] \<or> \<not> is_space (hd body)"
  shows "dropWhile is_space (ws @ body @ fence) = body @ fence"
proof -
  have "dropWhile is_space (ws @ body @ fence) = dropWhile is_space (body @ fence)"
    using assms(1) by (simp add: dropWhile_append list_all_iff)
  also have "\<dots> = body @ fence"
    using assms(2) by (cases body) (simp_all add: fence_simps not_space_backtick)
  finally show ?thesis .
qed

text \<open>
  A response that is exactly the html-tagged fence, white space, a body and the closing
  fence comes back as the body, when the body begins neither with white space nor with a
  fence of its own.
\<close>

lemma strip_fences_wrapped:
  assumes "list_all is_space ws" and "body = [] \<or> \<not> is_space (hd body)"
    and "\<not> starts_with (body @ fence) fence"
  shows "strip_fences (fence_html @ ws @ body @ fence) = body"
proof -
  have 1: "replace_fence_html (fence_html @ ws @ body @ fence) = body @ fence"
    using dropWhile_space_body [OF assms(1,2)]
    by (simp add: replace_fence_html_def starts_with_def)
  have 2: "replace_fence_open (body @ fence) = body @ fence"
    using assms(3) by (simp add: replace_fence_open_def)
  have 3: "replace_fence_close (body @ fence) = body"
    by (simp add: replace_fence_close_def ends_with_def)
  show ?thesis by (simp add: strip_fences_def 1 2 3)
qed

text \<open>
  C3. The cleanup is meant to remove the markdown fences around a response. On the
  response that opens with the html-tagged fence and a line break, holds the page, and
  closes with the fence followed by a line break, it removes the opening fence and leaves
  the closing fence in the returned text: \<^verbatim>\<open>$\<close> matches at the very end of the text only.
\<close>

theorem strip_fences_trailing_newline:
  "strip_fences (fence_html @ [0x0A] @ js ''<p>hi</p>'' @ [0x0A] @ fence @ [0x0A])
     = js ''<p>hi</p>'' @ [0x0A] @ fence @ [0x0A]"
  by (simp add: strip_fences_def replace_fence_html_def replace_fence_open_def
      replace_fence_close_def starts_with_def ends_with_def fence_simps js_def is_space_def)

lemma strip_fences_default: "strip_fences DEFAULT_PROMPT = DEFAULT_PROMPT"
  by (simp add: strip_fences_def replace_fence_html_def replace_fence_open_def
      replace_fence_close_def starts_with_def ends_with_def fence_simps DEFAULT_PROMPT_def)

lemma directive_not_fenced:
  "\<not> starts_with ANALYZE_DIRECTIVE fence \<and> \<not> ends_with ANALYZE_DIRECTIVE fence"
  by code_simp

lemma strip_fences_directive: "strip_fences ANALYZE_DIRECTIVE = ANALYZE_DIRECTIVE"
  using directive_not_fenced by (simp add: strip_fences_clean)

lemma default_not_empty: "DEFAULT_PROMPT \<noteq> []"
  by (simp add: DEFAULT_PROMPT_def)

text \<open>
  C9, as the code has it. Let a key be stored, so that a request is sent. Without a file
  and with the empty prompt, the request that \<^verbatim>\<open>bringToLife\<close> hands to the service has one
  part, the default demo prompt, which is not empty. With a file payload that is not
  empty, the first part of the request is the analysis directive, whatever the prompt
  (followed by the inline data when a media type is given). In both cases the result is
  what the service answers to that very request, cleaned.
\<close>

theorem bringToLife_prompt:
  assumes "truthy apiKey"
  shows "bringToLife apiKey g [] None m
           = (case g \<lparr>parts = [Text DEFAULT_PROMPT], systemInstruction = SYSTEM_INSTRUCTION\<rparr> of
                Inl e \<Rightarrow> Inl e
              | Inr t \<Rightarrow> Inr (strip_fences (js_or t FAILURE_PLACEHOLDER)))
       \<and> DEFAULT_PROMPT \<noteq> []
       \<and> (b \<noteq> [] \<longrightarrow>
            bringToLife apiKey g prompt (Some b) m
              = (case g \<lparr>parts = Text ANALYZE_DIRECTIVE
                               # (if truthy m then [InlineData b (js_or m [])] else []),
                         systemInstruction = SYSTEM_INSTRUCTION\<rparr> of
                   Inl e \<Rightarrow> Inl e
                 | Inr t \<Rightarrow> Inr (strip_fences (js_or t FAILURE_PLACEHOLDER))))"
  using assms
  by (simp add: bringToLife_def truthy_key bringToLife_parts_def finalPrompt_def
      default_not_empty truthy_def js_or_def)

text \<open>
  With the service that answers with the first part it was sent, the answer shows the
  prompt of the request: the default prompt, and the directive.
\<close>

theorem bringToLife_prompt_witness:
  "bringToLife some_key echo_service [] None None = Inr DEFAULT_PROMPT
   \<and> bringToLife some_key echo_service (js ''a clock'') (Some (js ''QUJD''))
        (Some (js ''image/png'')) = Inr ANALYZE_DIRECTIVE"
proof -
  have k: "truthy some_key" by (simp add: some_key_def truthy_def js_def)
  have b: "js ''QUJD'' \<noteq> []" by (simp add: js_def)
  have d: "js_or (Some DEFAULT_PROMPT) FAILURE_PLACEHOLDER = DEFAULT_PROMPT"
    by (simp add: js_or_def default_not_empty)
  have a: "js_or (Some ANALYZE_DIRECTIVE) FAILURE_PLACEHOLDER = ANALYZE_DIRECTIVE"
    by code_simp
  from bringToLife_prompt [OF k, of echo_service None "js ''QUJD''" "js ''a clock''"]
    bringToLife_prompt [OF k, of echo_service "Some (js ''image/png'')" "js ''QUJD''"
      "js ''a clock''"] b d a
  show ?thesis
    by (simp add: echo_service_def strip_fences_default strip_fences_directive)
qed

text \<open>
  C9, as the claim states it, fails for a file whose payload is the empty string (a file
  of no bytes): the payload is falsy, and the request carries the prompt typed by the
  user, as the answer of the echoing service shows.
\<close>

theorem bringToLife_prompt_counterexample:
  "bringToLife some_key echo_service (js ''a clock'') (Some []) (Some (js ''image/png''))
     = Inr (js ''a clock'')
   \<and> js ''a clock'' \<noteq> ANALYZE_DIRECTIVE"
  by code_simp

text \<open>
  C10, as the code has it. When a key is stored and the service answers the request
  without text (undefined or empty), neither call throws; \<^verbatim>\<open>bringToLife\<close> returns the
  failure placeholder, which is not empty, and \<^verbatim>\<open>updateCode\<close> returns the current html put
  through the fence cleanup, which is the current html itself whenever that neither begins
  nor ends with the three backticks.
\<close>

theorem empty_response:
  assumes "truthy apiKey" and "\<not> truthy text"
  shows "(generateContent \<lparr>parts = bringToLife_parts prompt fileBase64 m,
                           systemInstruction = SYSTEM_INSTRUCTION\<rparr> = Inr text
          \<longrightarrow> bringToLife apiKey generateContent prompt fileBase64 m = Inr FAILURE_PLACEHOLDER
              \<and> FAILURE_PLACEHOLDER \<noteq> [])
       \<and> (generateContent \<lparr>parts = updateCode_parts currentHtml userPrompt,
                             systemInstruction = UPDATE_SYSTEM_INSTRUCTION\<rparr> = Inr text
          \<longrightarrow> updateCode apiKey generateContent currentHtml userPrompt
                = Inr (strip_fences currentHtml)
              \<and> (\<not> starts_with currentHtml fence \<and> \<not> ends_with currentHtml fence
                 \<longrightarrow> updateCode apiKey generateContent currentHtml userPrompt
                       = Inr currentHtml))"
  using assms
  by (simp add: bringToLife_def updateCode_def truthy_key not_truthy_js_or
      strip_fences_placeholder strip_fences_clean placeholder_not_empty)

theorem empty_response_witness:
  "bringToLife some_key no_text_service [] None None = Inr FAILURE_PLACEHOLDER
   \<and> updateCode some_key no_text_service (js ''<p>a</p>'') (js ''bigger'')
       = Inr (js ''<p>a</p>'')"
proof -
  have k: "truthy some_key" by (simp add: some_key_def truthy_def js_def)
  have t: "\<not> truthy None" by (simp add: truthy_def)
  have c: "\<not> starts_with (js ''<p>a</p>'') fence \<and> \<not> ends_with (js ''<p>a</p>'') fence"
    by (simp add: starts_with_def ends_with_def fence_simps js_def)
  show ?thesis
    using empty_response [OF k t, of no_text_service "[]" None None "js ''<p>a</p>''"
        "js ''bigger''"] c
    by (simp add: no_text_service_def strip_fences_clean)
qed

text \<open>
  C10, as the claim states it, fails for a current html that ends with the three
  backticks: the fallback goes through the cleanup and comes back without them.
\<close>

theorem updateCode_empty_response_counterexample:
  "updateCode some_key no_text_service (js ''<p>a</p>'' @ fence) (js ''bigger'')
     = Inr (js ''<p>a</p>'')
   \<and> js ''<p>a</p>'' \<noteq> js ''<p>a</p>'' @ fence"
  by (simp add: updateCode_def getGenAIClient_def some_key_def truthy_def js_or_def
      no_text_service_def strip_fences_def replace_fence_html_def replace_fence_open_def
      replace_fence_close_def starts_with_def ends_with_def fence_simps js_def)

section \<open>Properties of the history\<close>

lemma save_history_fields [simp]:
  "history (save_history ok st) = history st"
  "activeCreation (save_history ok st) = activeCreation st"
  "isGenerating (save_history ok st) = isGenerating st"
  "alerts (save_history ok st) = alerts st"
  by (simp_all add: save_history_def)

lemma setHistory_fields [simp]:
  "history (setHistory ok u st) = (case u of None \<Rightarrow> history st | Some h \<Rightarrow> h)"
  "activeCreation (setHistory ok u st) = activeCreation st"
  "isGenerating (setHistory ok u st) = isGenerating st"
  "alerts (setHistory ok u st) = alerts st"
  by (simp_all add: setHistory_def split: option.splits)

lemma setHistory_None: "setHistory ok None st = st"
  by (simp add: setHistory_def)

lemma handleError_fields [simp]:
  "history (handleError e st) = history st"
  "activeCreation (handleError e st) = activeCreation st"
  "stored_history (handleError e st) = stored_history st"
  by (simp_all add: handleError_def)

lemma hd_add: "hd (add r h) = r" "add r h \<noteq> []"
  by (simp_all add: add_def MAX_HISTORY_ITEMS_def)


lemma take_append_take: "take n (xs @ take n ys) = take n (xs @ ys)"
  by (simp add: min_def)

text \<open>An add operation puts the record it brings in front and makes it the active one.\<close>

lemma step_add:
  assumes "is_add e (history st)"
  shows "\<exists>r. brought e = Some r \<and> history (step ok e st) = add r (history st)
            \<and> activeCreation (step ok e st) = Some r"
proof (cases e)
  case (Generate uuid now f outcome)
  with assms show ?thesis
    by (cases outcome) (auto simp: handleGenerate_finish_def split: if_splits)
next
  case (Update uuid now captured outcome)
  with assms show ?thesis
    by (cases outcome)
       (auto simp: handleUpdate_finish_def split: if_splits sum.splits)
next
  case (Import uuid now p)
  with assms show ?thesis
    by (cases p) (auto simp: handleImportFile_def split: if_splits)
next
  case (Delete i)
  with assms show ?thesis by simp
qed

lemma run_append: "run ok (es @ fs) st = run ok fs (run ok es st)"
  by (induction es arbitrary: st) auto

lemma all_adds_append:
  "all_adds ok (es @ fs) st \<longleftrightarrow> all_adds ok es st \<and> all_adds ok fs (run ok es st)"
  by (induction es arbitrary: st) auto

lemma map_filter_brought_Cons:
  "brought e = Some r \<Longrightarrow> List.map_filter brought (e # es) = r # List.map_filter brought es"
  by (simp add: List.map_filter_simps)

lemma run_adds:
  "es \<noteq> [] \<Longrightarrow> all_adds ok es st \<Longrightarrow>
   history (run ok es st)
     = take MAX_HISTORY_ITEMS (rev (List.map_filter brought es) @ history st)"
proof (induction es arbitrary: st rule: list_nonempty_induct)
  case (single e)
  then have "is_add e (history st)" by simp
  from step_add [OF this, of ok] obtain r where
    r: "brought e = Some r" "history (step ok e st) = add r (history st)" by blast
  then show ?case by (simp add: map_filter_brought_Cons List.map_filter_simps add_def)
next
  case (cons e es)
  then have a: "is_add e (history st)" and b: "all_adds ok es (step ok e st)" by simp_all
  from step_add [OF a, of ok] obtain r where
    r: "brought e = Some r" "history (step ok e st) = add r (history st)" by blast
  have "history (run ok (e # es) st) = history (run ok es (step ok e st))" by simp
  also have "\<dots> = take MAX_HISTORY_ITEMS
      (rev (List.map_filter brought es) @ add r (history st))"
    using cons.IH [OF b] r by simp
  also have "\<dots> = take MAX_HISTORY_ITEMS (rev (List.map_filter brought es) @ r # history st)"
    unfolding add_def by (rule take_append_take)
  finally show ?case using r by (simp add: map_filter_brought_Cons)
qed

lemma run_adds_head:
  assumes "es \<noteq> []" and "all_adds ok es st"
  shows "brought (last es) = Some (hd (history (run ok es st)))"
proof -
  have "all_adds ok (butlast es @ [last es]) st" using assms by simp
  then have "is_add (last es) (history (run ok (butlast es) st))"
    unfolding all_adds_append by simp
  from step_add [OF this, of ok] obtain r where
    r: "brought (last es) = Some r"
       "history (step ok (last es) (run ok (butlast es) st))
          = add r (history (run ok (butlast es) st))" by blast
  have "run ok (butlast es @ [last es]) st = step ok (last es) (run ok (butlast es) st)"
    unfolding run_append by simp
  then have "run ok es st = step ok (last es) (run ok (butlast es) st)"
    using assms(1) by simp
  with r show ?thesis by (simp add: hd_add)
qed

lemma length_brought:
  "all_adds ok es st \<Longrightarrow> length (List.map_filter brought es) = length es"
proof (induction es arbitrary: st)
  case Nil
  then show ?case by (simp add: List.map_filter_simps)
next
  case (Cons e es)
  then have a: "is_add e (history st)" and b: "all_adds ok es (step ok e st)" by simp_all
  from step_add [OF a, of ok] obtain r where "brought e = Some r" by blast
  with Cons.IH [OF b] show ?case by (simp add: map_filter_brought_Cons)
qed

text \<open>
  C1. Take any starting state and any sequence of at least one add operation: a
  generation or a revision that brings a record, or an import of an accepted document
  whose id no record of the history has. Then the history has at most 30 records, the
  record of the last operation is at its head, every operation has contributed its record,
  and the history is the records of the operations, the latest first, followed by the
  starting collection, cut after 30.
\<close>

theorem add_operations:
  assumes "all_adds ok es st" and "es \<noteq> []"
  shows "length (history (run ok es st)) \<le> 30
       \<and> brought (last es) = Some (hd (history (run ok es st)))
       \<and> length (List.map_filter brought es) = length es
       \<and> history (run ok es st) = take 30 (rev (List.map_filter brought es) @ history st)"
proof -
  have h: "history (run ok es st)
      = take 30 (rev (List.map_filter brought es) @ history st)"
    using run_adds [OF assms(2) assms(1)] by (simp add: MAX_HISTORY_ITEMS_def)
  have l: "length (List.map_filter brought es) = length es"
    by (rule length_brought [OF assms(1)])
  have b: "length (history (run ok es st)) \<le> 30" unfolding h by simp
  have d: "brought (last es) = Some (hd (history (run ok es st)))"
    by (rule run_adds_head [OF assms(2) assms(1)])
  show ?thesis by (intro conjI) (rule b, rule d, rule l, rule h)
qed

text \<open>A generation and a revision on a history of one record: newest first, then the old one.\<close>

theorem add_operations_witness:
  "all_adds storage_ok two_adds (initial_app\<lparr>history := [creation_X]\<rparr>) \<and> two_adds \<noteq> []
   \<and> map id' (history (run storage_ok two_adds (initial_app\<lparr>history := [creation_X]\<rparr>)))
       = [JStr (js ''id-2''), JStr (js ''id-1''), JStr (js ''id-x'')]
   \<and> map name (history (run storage_ok two_adds (initial_app\<lparr>history := [creation_X]\<rparr>)))
       = [JStr (js ''X (v2)''), JStr NEW_CREATION_NAME, JStr (js ''X'')]"
proof -
  have a: "all_adds storage_ok two_adds (initial_app\<lparr>history := [creation_X]\<rparr>)"
    by code_simp
  have b: "two_adds \<noteq> []" by (simp add: two_adds_def)
  have c: "map id' (take 30 (rev (List.map_filter brought two_adds)
                @ history (initial_app\<lparr>history := [creation_X]\<rparr>)))
      = [JStr (js ''id-2''), JStr (js ''id-1''), JStr (js ''id-x'')]"
    by code_simp
  have d: "map name (take 30 (rev (List.map_filter brought two_adds)
                @ history (initial_app\<lparr>history := [creation_X]\<rparr>)))
      = [JStr (js ''X (v2)''), JStr NEW_CREATION_NAME, JStr (js ''X'')]"
    by code_simp
  from add_operations [OF a b] have
    "history (run storage_ok two_adds (initial_app\<lparr>history := [creation_X]\<rparr>))
      = take 30 (rev (List.map_filter brought two_adds)
                @ history (initial_app\<lparr>history := [creation_X]\<rparr>))"
    by blast
  with a b c d show ?thesis by simp
qed




section \<open>Properties of export, import and deletion\<close>






text \<open>
  C5, as the code has it. A file that parses to \<^verbatim>\<open>null\<close>, to a value that is not an
  object, or to an object whose \<^verbatim>\<open>html\<close> or \<^verbatim>\<open>name\<close> is absent, \<^verbatim>\<open>null\<close>, \<^verbatim>\<open>false\<close>, \<open>0\<close> or the
  empty string, is rejected with a message: the state is as before but for that one more
  message (the invalid-format message; for \<^verbatim>\<open>null\<close> the import-failed message of the
  \<^verbatim>\<open>catch\<close> block), so the history, the stored entry and the active creation are unchanged.
\<close>

theorem import_rejects:
  assumes "p = Null \<or> p = NonObject
     \<or> (\<exists>d. p = Object d
            \<and> (d_html d = JUndefined \<or> d_html d = JNull \<or> d_html d = JBool False
               \<or> d_html d = JNum (js ''0'') \<or> d_html d = JStr []
               \<or> d_name d = JUndefined \<or> d_name d = JNull \<or> d_name d = JBool False
               \<or> d_name d = JNum (js ''0'') \<or> d_name d = JStr []))"
  shows "handleImportFile ok uuid now p st
           = st\<lparr>alerts := alerts st @ [if p = Null then ImportFailed else InvalidFormat]\<rparr>
       \<and> history (handleImportFile ok uuid now p st) = history st
       \<and> stored_history (handleImportFile ok uuid now p st) = stored_history st
       \<and> activeCreation (handleImportFile ok uuid now p st) = activeCreation st"
  using assms by (auto simp: handleImportFile_def)

theorem import_rejects_witness:
  "handleImportFile storage_ok (js ''id-new'') 7 (Object no_html) two_app
     = two_app\<lparr>alerts := [InvalidFormat]\<rparr>
   \<and> history (handleImportFile storage_ok (js ''id-new'') 7 (Object no_html) two_app)
       = [creation_X, creation_Y]
   \<and> handleImportFile storage_ok (js ''id-new'') 7 Null two_app
       = two_app\<lparr>alerts := [ImportFailed]\<rparr>"
proof -
  have 1: "Object no_html = Null \<or> Object no_html = NonObject
     \<or> (\<exists>d. Object no_html = Object d
            \<and> (d_html d = JUndefined \<or> d_html d = JNull \<or> d_html d = JBool False
               \<or> d_html d = JNum (js ''0'') \<or> d_html d = JStr []
               \<or> d_name d = JUndefined \<or> d_name d = JNull \<or> d_name d = JBool False
               \<or> d_name d = JNum (js ''0'') \<or> d_name d = JStr []))"
    by (simp add: no_html_def)
  have 2: "alerts two_app = []" by code_simp
  have 3: "history two_app = [creation_X, creation_Y]" by code_simp
  from import_rejects [OF 1, of storage_ok "js ''id-new''" 7 two_app]
    import_rejects [of Null storage_ok "js ''id-new''" 7 two_app] 2 3
  show ?thesis by simp
qed

text \<open>
  C5, as the claim states it, fails for the file \<^verbatim>\<open>{"html": [], "name": "N"}\<close>: its html is
  empty, yet an array is truthy, so the file is accepted, no message is shown, and a record
  with that html is added to the history and made active.
\<close>

theorem import_empty_array_counterexample:
  "d_html empty_array_html = JArr []
   \<and> alerts (handleImportFile storage_ok (js ''id-new'') 7 (Object empty_array_html) initial_app)
       = []
   \<and> map html (history (handleImportFile storage_ok (js ''id-new'') 7 (Object empty_array_html)
        initial_app)) = [JArr []]
   \<and> map_option html (activeCreation (handleImportFile storage_ok (js ''id-new'') 7
        (Object empty_array_html) initial_app)) = Some (JArr [])"
  by code_simp

text \<open>
  C6. Deleting an id that no record of the history has leaves the history as it is.
\<close>

theorem delete_absent_id:
  assumes "\<forall>c \<in> set (history st). id' c \<noteq> JStr i"
  shows "history (handleDeleteCreation ok i st) = history st"
proof -
  have "filter (\<lambda>item. id' item \<noteq> JStr i) (history st) = history st"
    using assms by (simp add: filter_id_conv)
  then show ?thesis by (simp add: handleDeleteCreation_def Let_def)
qed

theorem delete_absent_id_witness:
  "map id' (history two_app) = [JStr (js ''id-x''), JStr (js ''id-y'')]
   \<and> history (handleDeleteCreation storage_ok (js ''id-q'') two_app) = [creation_X, creation_Y]"
proof -
  have 1: "\<forall>c \<in> set (history two_app). id' c \<noteq> JStr (js ''id-q'')" by code_simp
  have 2: "history two_app = [creation_X, creation_Y]" by code_simp
  have 3: "map id' (history two_app) = [JStr (js ''id-x''), JStr (js ''id-y'')]" by code_simp
  from delete_absent_id [OF 1, of storage_ok] 2 3 show ?thesis by simp
qed

section \<open>Properties of persistence and of the active slot\<close>

lemma persisted_active [simp]: "persisted (st\<lparr>activeCreation := a\<rparr>) = persisted st"
  by (simp add: persisted_def)

lemma delete_history:
  "history (handleDeleteCreation ok i st) = filter (\<lambda>c. id' c \<noteq> JStr i) (history st)"
  by (simp add: handleDeleteCreation_def Let_def)

lemma delete_persisted:
  "(history (handleDeleteCreation ok i st) = [] \<longrightarrow>
       stored_history (handleDeleteCreation ok i st) = None)
   \<and> (history (handleDeleteCreation ok i st) \<noteq> [] \<and> ok (history (handleDeleteCreation ok i st))
        \<longrightarrow> stored_history (handleDeleteCreation ok i st)
              = Some (history (handleDeleteCreation ok i st)))"
  by (simp add: handleDeleteCreation_def Let_def setHistory_def save_history_def)

lemma delete_refused:
  "history (handleDeleteCreation ok i st) \<noteq> [] \<and> \<not> ok (history (handleDeleteCreation ok i st))
     \<longrightarrow> stored_history (handleDeleteCreation ok i st) = stored_history st"
  by (simp add: handleDeleteCreation_def Let_def setHistory_def save_history_def)

text \<open>
  When the browser accepts the write, an action either leaves the collection and the
  stored entry untouched or leaves the entry reflecting the collection.
\<close>

lemma step_persisted:
  assumes "ok (history (step ok e st))"
  shows "persisted (step ok e st)
       \<or> (history (step ok e st) = history st
          \<and> stored_history (step ok e st) = stored_history st)"
proof (cases e)
  case (Generate uuid now f outcome)
  with assms show ?thesis
    by (cases outcome)
       (auto simp: handleGenerate_finish_def persisted_def setHistory_def save_history_def
          hd_add)
next
  case (Update uuid now captured outcome)
  with assms show ?thesis
    by (cases outcome)
       (auto simp: handleUpdate_finish_def persisted_def setHistory_def save_history_def
          hd_add split: sum.splits)
next
  case (Import uuid now p)
  with assms show ?thesis
    by (cases p)
       (auto simp: handleImportFile_def persisted_def setHistory_def save_history_def
          hd_add)
next
  case (Delete i)
  with assms delete_persisted [of ok i st] show ?thesis
    by (auto simp: persisted_def)
qed

text \<open>
  When the browser refuses the write of a collection that is not empty, the stored entry
  stays as it was.
\<close>

lemma step_refused:
  assumes "history (step ok e st) \<noteq> []" and "\<not> ok (history (step ok e st))"
  shows "stored_history (step ok e st) = stored_history st"
proof (cases e)
  case (Generate uuid now f outcome)
  with assms show ?thesis
    by (cases outcome)
       (auto simp: handleGenerate_finish_def setHistory_def save_history_def)
next
  case (Update uuid now captured outcome)
  with assms show ?thesis
    by (cases outcome)
       (auto simp: handleUpdate_finish_def setHistory_def save_history_def
          split: sum.splits)
next
  case (Import uuid now p)
  with assms show ?thesis
    by (cases p) (auto simp: handleImportFile_def setHistory_def save_history_def)
next
  case (Delete i)
  with assms delete_refused [of ok i st] show ?thesis by simp
qed

text \<open>
  C7, as the code has it. When the browser accepts the write, every action that reaches
  the history (a generation, a revision, an import, a deletion) either leaves the
  collection and the stored entry untouched or leaves the entry reflecting the collection.
  When the browser refuses the write of a collection that is not empty, the refusal is
  caught and the entry stays as it was. A deletion filters the matching records out; when
  nothing is left the entry is removed, whatever the browser does with writes; when
  something is left and the browser accepts the write, the entry holds the filtered list.
\<close>

theorem persisted_after_mutation:
  "(ok (history (step ok e st)) \<longrightarrow>
      persisted (step ok e st)
      \<or> (history (step ok e st) = history st
         \<and> stored_history (step ok e st) = stored_history st))
   \<and> (history (step ok e st) \<noteq> [] \<and> \<not> ok (history (step ok e st)) \<longrightarrow>
        stored_history (step ok e st) = stored_history st)
   \<and> history (handleDeleteCreation ok i st) = filter (\<lambda>c. id' c \<noteq> JStr i) (history st)
   \<and> (history (handleDeleteCreation ok i st) = [] \<longrightarrow>
         stored_history (handleDeleteCreation ok i st) = None)
   \<and> (history (handleDeleteCreation ok i st) \<noteq> [] \<and> ok (history (handleDeleteCreation ok i st))
        \<longrightarrow> stored_history (handleDeleteCreation ok i st)
              = Some (history (handleDeleteCreation ok i st)))"
  using step_persisted [of ok e st] step_refused [of ok e st] delete_persisted [of ok i st]
    delete_history [of ok i st]
  by blast

text \<open>
  Deleting one of two records, then the other: the list of one, then no entry at all; and
  with a storage that refuses the write, the entry as it was.
\<close>

theorem persisted_after_mutation_witness:
  "persisted (step storage_ok (Delete (js ''id-x'')) two_app)
   \<and> stored_history (handleDeleteCreation storage_ok (js ''id-x'') two_app) = Some [creation_Y]
   \<and> stored_history (handleDeleteCreation storage_ok (js ''id-x'')
        (handleDeleteCreation storage_ok (js ''id-y'') two_app)) = None
   \<and> stored_history (step storage_full (Delete (js ''id-x'')) two_app) = stored_history two_app"
proof -
  have 1: "storage_ok (history (step storage_ok (Delete (js ''id-x'')) two_app))"
    by (simp add: storage_ok_def)
  have 2: "history (step storage_ok (Delete (js ''id-x'')) two_app) \<noteq> history two_app"
    by code_simp
  have 3: "history (handleDeleteCreation storage_ok (js ''id-x'') two_app) = [creation_Y]"
    by code_simp
  have 4: "history (handleDeleteCreation storage_ok (js ''id-x'')
        (handleDeleteCreation storage_ok (js ''id-y'') two_app)) = []"
    by code_simp
  have 5: "history (handleDeleteCreation storage_ok (js ''id-x'') two_app) \<noteq> []
      \<and> storage_ok (history (handleDeleteCreation storage_ok (js ''id-x'') two_app))"
    unfolding 3 by (simp add: storage_ok_def)
  have 6: "history (step storage_full (Delete (js ''id-x'')) two_app) \<noteq> []
      \<and> \<not> storage_full (history (step storage_full (Delete (js ''id-x'')) two_app))"
    by code_simp
  note a = persisted_after_mutation [of storage_ok "Delete (js ''id-x'')" two_app "js ''id-x''"]
  note b = persisted_after_mutation [of storage_ok "Delete (js ''id-x'')"
      "handleDeleteCreation storage_ok (js ''id-y'') two_app" "js ''id-x''"]
  note c = persisted_after_mutation [of storage_full "Delete (js ''id-x'')" two_app
      "js ''id-x''"]
  from a 1 2 have p: "persisted (step storage_ok (Delete (js ''id-x'')) two_app)"
    by blast
  from a 5 have "stored_history (handleDeleteCreation storage_ok (js ''id-x'') two_app)
      = Some (history (handleDeleteCreation storage_ok (js ''id-x'') two_app))"
    by blast
  then have s: "stored_history (handleDeleteCreation storage_ok (js ''id-x'') two_app)
      = Some [creation_Y]"
    unfolding 3 .
  from b 4 have n: "stored_history (handleDeleteCreation storage_ok (js ''id-x'')
        (handleDeleteCreation storage_ok (js ''id-y'') two_app)) = None"
    by blast
  from c 6 have r: "stored_history (step storage_full (Delete (js ''id-x'')) two_app)
      = stored_history two_app"
    by blast
  from p s n r show ?thesis by blast
qed

text \<open>
  C7, as the claim states it, fails when the storage refuses the write: after deleting
  one of two records the collection holds the other one, and the entry still holds both.
\<close>

theorem persisted_storage_full_counterexample:
  "persisted two_app
   \<and> history (handleDeleteCreation storage_full (js ''id-x'') two_app) = [creation_Y]
   \<and> stored_history (handleDeleteCreation storage_full (js ''id-x'') two_app)
       = Some [creation_X, creation_Y]
   \<and> \<not> persisted (step storage_full (Delete (js ''id-x'')) two_app)"
  by code_simp

text \<open>
  C8, as the code has it. A create request enters the generating state with the active
  slot cleared. A revise request on an active creation enters the generating state with
  that creation still in the slot. And while a request is in flight, the import of an
  accepted file puts the imported record in the slot, the state still generating.
\<close>

theorem generating_active_slot:
  "isGenerating (handleGenerate_start st) \<and> activeCreation (handleGenerate_start st) = None
   \<and> (activeCreation st = Some c \<longrightarrow>
        isGenerating (handleUpdate_start st) \<and> activeCreation (handleUpdate_start st) = Some c)
   \<and> (isGenerating st \<and> is_truthy (d_html d) \<and> is_truthy (d_name d) \<longrightarrow>
        isGenerating (handleImportFile ok uuid now (Object d) st)
        \<and> activeCreation (handleImportFile ok uuid now (Object d) st)
            = Some (importedCreation uuid now d))"
  by (simp add: handleGenerate_start_def handleUpdate_start_def handleImportFile_def)

theorem generating_active_slot_witness:
  "activeCreation presenting_X = Some creation_X
   \<and> isGenerating (handleUpdate_start presenting_X)
   \<and> activeCreation (handleUpdate_start presenting_X) = Some creation_X
   \<and> isGenerating (handleGenerate_start initial_app)
   \<and> map_option id' (activeCreation (handleImportFile storage_ok (js ''id-new'') 7
        (Object document_W) (handleGenerate_start initial_app))) = Some (JStr (js ''id-w''))"
proof -
  have 1: "activeCreation presenting_X = Some creation_X" by code_simp
  have 2: "isGenerating (handleGenerate_start initial_app)
      \<and> is_truthy (d_html document_W) \<and> is_truthy (d_name document_W)" by code_simp
  have 3: "id' (importedCreation (js ''id-new'') 7 document_W) = JStr (js ''id-w'')"
    by code_simp
  from generating_active_slot [of presenting_X creation_X document_W storage_ok
      "js ''id-new''" 7]
    generating_active_slot [of "handleGenerate_start initial_app" creation_X document_W
      storage_ok "js ''id-new''" 7] 1 2 3
  show ?thesis by simp
qed

text \<open>
  C8, as the claim states it, fails for a revise request, where the state is generating
  and the active slot is not cleared, and for a create request during which a file is
  imported: the state is still generating and the slot holds the imported record.
\<close>

theorem generating_slot_counterexample:
  "isGenerating (handleUpdate_start presenting_X)
   \<and> activeCreation (handleUpdate_start presenting_X) \<noteq> None
   \<and> isGenerating (handleImportFile storage_ok (js ''id-new'') 7 (Object document_W)
        (handleGenerate_start initial_app))
   \<and> activeCreation (handleImportFile storage_ok (js ''id-new'') 7 (Object document_W)
        (handleGenerate_start initial_app)) \<noteq> None"
  by code_simp

end
